theory Spec2Isabelle
  imports Main "HOL-Library.Word" "HOL-Library.Monad_Syntax"
begin

unbundle bit_operations_syntax

section \<open>Byte order\<close>

text \<open>
  The package keeps one process-wide \<^verbatim>\<open>nativeEndian\<close>, chosen by \<^verbatim>\<open>init\<close> from the two
  bytes that storing the 16-bit value 0xABCD leaves in memory. The probe's two bytes are
  the argument here; every other function takes the chosen order as its first argument.
\<close>

type_synonym byte = "8 word"

datatype ByteOrder = LittleEndian | BigEndian

definition init :: "byte list \<Rightarrow> ByteOrder" where
  "init buf =
     (if buf = [0xCD, 0xAB] then LittleEndian
      else if buf = [0xAB, 0xCD] then BigEndian
      else LittleEndian)"

text \<open>
  A slice expression \<^verbatim>\<open>b[i:]\<close> and the accessors of \<^verbatim>\<open>encoding/binary\<close> panic when the
  slice is too short; \<open>None\<close> is the panic.
\<close>

definition slice_from :: "byte list \<Rightarrow> nat \<Rightarrow> byte list option" where
  "slice_from b i = (if i \<le> length b then Some (drop i b) else None)"

fun Uint16 :: "ByteOrder \<Rightarrow> byte list \<Rightarrow> 16 word option" where
  "Uint16 LittleEndian (b0 # b1 # bs) = Some (ucast b0 OR push_bit 8 (ucast b1))"
| "Uint16 BigEndian (b0 # b1 # bs) = Some (ucast b1 OR push_bit 8 (ucast b0))"
| "Uint16 bo bs = None"

fun Uint32 :: "ByteOrder \<Rightarrow> byte list \<Rightarrow> 32 word option" where
  "Uint32 LittleEndian (b0 # b1 # b2 # b3 # bs) =
     Some (ucast b0 OR push_bit 8 (ucast b1) OR push_bit 16 (ucast b2) OR push_bit 24 (ucast b3))"
| "Uint32 BigEndian (b0 # b1 # b2 # b3 # bs) =
     Some (ucast b3 OR push_bit 8 (ucast b2) OR push_bit 16 (ucast b1) OR push_bit 24 (ucast b0))"
| "Uint32 bo bs = None"

text \<open>
  \<^verbatim>\<open>PutUint16(buf[off:], v)\<close> writes through the slice into the buffer it aliases: the
  result is the buffer after the write.
\<close>

definition PutUint16 :: "ByteOrder \<Rightarrow> byte list \<Rightarrow> nat \<Rightarrow> 16 word \<Rightarrow> byte list option" where
  "PutUint16 bo buf off v =
     (if off + 2 \<le> length buf then
        Some (case bo of
                LittleEndian \<Rightarrow> buf[off := ucast v, off + 1 := ucast (drop_bit 8 v)]
              | BigEndian \<Rightarrow> buf[off := ucast (drop_bit 8 v), off + 1 := ucast v])
      else None)"

definition PutUint32 :: "ByteOrder \<Rightarrow> byte list \<Rightarrow> nat \<Rightarrow> 32 word \<Rightarrow> byte list option" where
  "PutUint32 bo buf off v =
     (if off + 4 \<le> length buf then
        Some (case bo of
                LittleEndian \<Rightarrow>
                  buf[off := ucast v, off + 1 := ucast (drop_bit 8 v),
                      off + 2 := ucast (drop_bit 16 v), off + 3 := ucast (drop_bit 24 v)]
              | BigEndian \<Rightarrow>
                  buf[off := ucast (drop_bit 24 v), off + 1 := ucast (drop_bit 16 v),
                      off + 2 := ucast (drop_bit 8 v), off + 3 := ucast v])
      else None)"

section \<open>Flag sets and their rendering\<close>

type_synonym Buttons = "8 word"

definition B_NONE :: Buttons where "B_NONE = 0"
definition B_RIGHT :: Buttons where "B_RIGHT = 1"
definition B_MIDDLE :: Buttons where "B_MIDDLE = 2"
definition B_LEFT :: Buttons where "B_LEFT = 4"
definition B_FOURTH :: Buttons where "B_FOURTH = 8"
definition B_UP :: Buttons where "B_UP = 16"
definition B_DOWN :: Buttons where "B_DOWN = 32"

text \<open>\<^verbatim>\<open>strings.Join\<close>.\<close>

fun Join :: "string list \<Rightarrow> string \<Rightarrow> string" where
  "Join [] sep = []"
| "Join [x] sep = x"
| "Join (x # y # ys) sep = x @ sep @ Join (y # ys) sep"

text \<open>One \<^verbatim>\<open>if mask&FLAG > 0 { s = append(s, label) }\<close> of an unsigned flag set.\<close>

definition flag :: "'a::len word \<Rightarrow> 'a word \<Rightarrow> string \<Rightarrow> string list" where
  "flag v f label = (if v AND f > 0 then [label] else [])"

definition Buttons_String :: "Buttons \<Rightarrow> string" where
  "Buttons_String b =
     Join (flag b B_NONE ''none'' @ flag b B_RIGHT ''right'' @ flag b B_MIDDLE ''middle''
           @ flag b B_LEFT ''left'' @ flag b B_FOURTH ''fourth'' @ flag b B_UP ''up''
           @ flag b B_DOWN ''down'') '',''"

type_synonym EventType = "16 word"

definition MOVE :: EventType where "MOVE = 1"
definition DRAG :: EventType where "DRAG = 2"
definition DOWN :: EventType where "DOWN = 4"
definition UP :: EventType where "UP = 8"
definition SINGLE :: EventType where "SINGLE = 16"
definition DOUBLE :: EventType where "DOUBLE = 32"
definition TRIPLE :: EventType where "TRIPLE = 64"
definition MFLAG :: EventType where "MFLAG = 128"
definition HARD :: EventType where "HARD = 256"
definition ENTER :: EventType where "ENTER = 512"
definition LEAVE :: EventType where "LEAVE = 1024"

definition EventType_String :: "EventType \<Rightarrow> string" where
  "EventType_String e =
     Join (flag e MOVE ''move'' @ flag e DRAG ''drag'' @ flag e DOWN ''down''
           @ flag e UP ''up'' @ flag e SINGLE ''single'' @ flag e DOUBLE ''double''
           @ flag e TRIPLE ''triple'' @ flag e MFLAG ''mflag'' @ flag e HARD ''hard''
           @ flag e ENTER ''enter'' @ flag e LEAVE ''leave'') '',''"

text \<open>
  \<^verbatim>\<open>Margin\<close> is a Go \<^verbatim>\<open>int\<close>, signed and 64 bits wide on the platforms gpm runs on: an
  integer here, with the two's-complement \<open>AND\<close> of integers.
\<close>

type_synonym Margin = int

definition TOP :: Margin where "TOP = 1"
definition BOT :: Margin where "BOT = 2"
definition LFT :: Margin where "LFT = 4"
definition RGT :: Margin where "RGT = 8"

definition mflag :: "Margin \<Rightarrow> Margin \<Rightarrow> string \<Rightarrow> string list" where
  "mflag v f label = (if v AND f > 0 then [label] else [])"

definition Margin_String :: "Margin \<Rightarrow> string" where
  "Margin_String m =
     Join (mflag m TOP ''top'' @ mflag m BOT ''bot'' @ mflag m LFT ''lft''
           @ mflag m RGT ''rgt'') '',''"

section \<open>The handshake record\<close>

record GPMConnect =
  EventMask :: EventType
  DefaultMask :: EventType
  MinMod :: "16 word"
  MaxMod :: "16 word"

definition DefaultConf :: GPMConnect where
  "DefaultConf = \<lparr>EventMask = NOT 0, DefaultMask = NOT 0, MinMod = 0, MaxMod = NOT 0\<rparr>"

text \<open>
  The 16 bytes that \<^verbatim>\<open>NewGPM\<close> builds and writes to the socket. \<open>pid\<close> and \<open>tty\<close> are Go
  \<^verbatim>\<open>int\<close>s, integers here; the conversion \<^verbatim>\<open>uint32(pid)\<close> keeps the low 32 bits.
\<close>

definition gpmConnect :: "ByteOrder \<Rightarrow> GPMConnect \<Rightarrow> int \<Rightarrow> int \<Rightarrow> byte list option" where
  "gpmConnect nativeEndian conf pid tty = do {
     b0 \<leftarrow> PutUint16 nativeEndian (replicate 16 0) 0 (EventMask conf);
     b1 \<leftarrow> PutUint16 nativeEndian b0 2 (DefaultMask conf);
     b2 \<leftarrow> PutUint16 nativeEndian b1 4 (MinMod conf);
     b3 \<leftarrow> PutUint16 nativeEndian b2 6 (MaxMod conf);
     b4 \<leftarrow> PutUint32 nativeEndian b3 8 (word_of_int pid);
     PutUint32 nativeEndian b4 12 (word_of_int tty)
   }"

text \<open>
  The source has no decoder of the handshake record (the server reads it). This one reads
  the six fields back where section 4.1 of the specification puts them: two bytes each at
  offsets 0, 2, 4 and 6, four bytes each at offsets 8 and 12, with the accessors above.
\<close>

definition read_handshake ::
  "ByteOrder \<Rightarrow> byte list \<Rightarrow>
     (16 word \<times> 16 word \<times> 16 word \<times> 16 word \<times> 32 word \<times> 32 word) option" where
  "read_handshake bo b = do {
     s0 \<leftarrow> slice_from b 0; eventMask \<leftarrow> Uint16 bo s0;
     s2 \<leftarrow> slice_from b 2; defaultMask \<leftarrow> Uint16 bo s2;
     s4 \<leftarrow> slice_from b 4; minMod \<leftarrow> Uint16 bo s4;
     s6 \<leftarrow> slice_from b 6; maxMod \<leftarrow> Uint16 bo s6;
     s8 \<leftarrow> slice_from b 8; pid \<leftarrow> Uint32 bo s8;
     s12 \<leftarrow> slice_from b 12; vc \<leftarrow> Uint32 bo s12;
     Some (eventMask, defaultMask, minMod, maxMod, pid, vc)
   }"

section \<open>Events\<close>

text \<open>
  The signed fields (\<^verbatim>\<open>int16\<close>, \<^verbatim>\<open>int32\<close>) are words, read as two's complement by \<open>sint\<close>
  where their value matters (when they are printed).
\<close>

record Event =
  Buttons :: Buttons
  Modifiers :: "8 word"
  VC :: "16 word"
  DX :: "16 word"
  DY :: "16 word"
  X :: "16 word"
  Y :: "16 word"
  Type :: EventType
  Clicks :: "32 word"
  Margin :: Margin
  WDX :: "16 word"
  WDY :: "16 word"

text \<open>The zero value \<^verbatim>\<open>Event{}\<close>.\<close>

definition Event_zero :: Event where
  "Event_zero =
     \<lparr>Buttons = 0, Modifiers = 0, VC = 0, DX = 0, DY = 0, X = 0, Y = 0, Type = 0,
      Clicks = 0, Margin = 0, WDX = 0, WDY = 0\<rparr>"

text \<open>
  The composite literal of \<^verbatim>\<open>GPM.Read\<close>, a function of the buffer \<open>b\<close>. The conversions
  to \<^verbatim>\<open>uint8\<close> and to \<^verbatim>\<open>EventType\<close> (a \<^verbatim>\<open>uint16\<close>) keep the low bits; the conversion of
  a \<^verbatim>\<open>uint32\<close> to \<^verbatim>\<open>Margin\<close> (a 64-bit \<^verbatim>\<open>int\<close>) keeps the unsigned value.
\<close>

definition decode_Event :: "ByteOrder \<Rightarrow> byte list \<Rightarrow> Event option" where
  "decode_Event nativeEndian b = do {
     s0 \<leftarrow> slice_from b 0; buttons \<leftarrow> Uint16 nativeEndian s0;
     s1 \<leftarrow> slice_from b 1; modifiers \<leftarrow> Uint16 nativeEndian s1;
     s2 \<leftarrow> slice_from b 2; vc \<leftarrow> Uint16 nativeEndian s2;
     s4 \<leftarrow> slice_from b 4; dx \<leftarrow> Uint16 nativeEndian s4;
     s6 \<leftarrow> slice_from b 6; dy \<leftarrow> Uint16 nativeEndian s6;
     s8 \<leftarrow> slice_from b 8; x \<leftarrow> Uint16 nativeEndian s8;
     s10 \<leftarrow> slice_from b 10; y \<leftarrow> Uint16 nativeEndian s10;
     s12 \<leftarrow> slice_from b 12; ty \<leftarrow> Uint32 nativeEndian s12;
     s16 \<leftarrow> slice_from b 16; clicks \<leftarrow> Uint32 nativeEndian s16;
     s20 \<leftarrow> slice_from b 20; margin \<leftarrow> Uint32 nativeEndian s20;
     s24 \<leftarrow> slice_from b 24; wdx \<leftarrow> Uint16 nativeEndian s24;
     s26 \<leftarrow> slice_from b 26; wdy \<leftarrow> Uint16 nativeEndian s26;
     Some \<lparr>Buttons = ucast buttons, Modifiers = ucast modifiers, VC = vc, DX = dx, DY = dy,
           X = x, Y = y, Type = ucast ty, Clicks = clicks, Margin = uint margin,
           WDX = wdx, WDY = wdy\<rparr>
   }"

subsection \<open>Reading from the connection\<close>

text \<open>
  The connection is outside the package. One call \<^verbatim>\<open>c.Read(b)\<close> is given by its outcome:
  the bytes it delivered (at most \<^verbatim>\<open>len(b)\<close> of them, copied to the front of \<open>b\<close>) and
  the error it returned, if any. \<^verbatim>\<open>GPM.Read\<close> drops the count and looks at the error only.
  Its result is \<open>None\<close> if it panics, and otherwise the pair of the Go return values.
\<close>

datatype error = EOF | IOError string

definition conn_Read :: "byte list \<Rightarrow> byte list \<Rightarrow> byte list" where
  "conn_Read b delivered = take (length b) delivered @ drop (length delivered) b"

definition GPM_Read ::
  "ByteOrder \<Rightarrow> byte list \<times> error option \<Rightarrow> (Event \<times> error option) option" where
  "GPM_Read nativeEndian outcome =
     (let b = conn_Read (replicate 28 0) (fst outcome) in
      case snd outcome of
        Some err \<Rightarrow> Some (Event_zero, Some err)
      | None \<Rightarrow> map_option (\<lambda>e. (e, None)) (decode_Event nativeEndian b))"

subsection \<open>Printing\<close>

text \<open>
  \<^verbatim>\<open>%v\<close> prints an integer in base 10, with a minus sign when it is negative, and a value
  with a \<^verbatim>\<open>String\<close> method through that method.
\<close>

fun FormatUint :: "nat \<Rightarrow> string" where
  "FormatUint n =
     (if n < 10 then [char_of (48 + n)]
      else FormatUint (n div 10) @ [char_of (48 + n mod 10)])"

declare FormatUint.simps [simp del]

definition FormatInt :: "int \<Rightarrow> string" where
  "FormatInt i = (if i < 0 then CHR ''-'' # FormatUint (nat (- i)) else FormatUint (nat i))"

definition Event_String :: "Event \<Rightarrow> string" where
  "Event_String event =
     ''type:'' @ EventType_String (Type event)
     @ ''[buttons:'' @ Buttons_String (Buttons event)
     @ '', modifiers:'' @ FormatUint (unat (Modifiers event))
     @ '', vc:'' @ FormatUint (unat (VC event))
     @ ''] x:'' @ FormatInt (sint (X event))
     @ ''[dx:'' @ FormatInt (sint (DX event))
     @ ''] y:'' @ FormatInt (sint (Y event))
     @ ''[dy:'' @ FormatInt (sint (DY event))
     @ ''], clicks:'' @ FormatInt (sint (Clicks event))
     @ '' margin:'' @ Margin_String (Margin event)
     @ '', wdx:'' @ FormatInt (sint (WDX event))
     @ '', wdy:'' @ FormatInt (sint (WDY event))"

section \<open>Auxiliary facts\<close>

lemma replicate_16: "replicate 16 x = [x, x, x, x, x, x, x, x, x, x, x, x, x, x, x, x]"
  by (simp add: numeral_eq_Suc)

lemma bytes_of_uint16:
  "ucast (ucast v :: byte) OR push_bit 8 (ucast (ucast (drop_bit 8 v) :: byte)) = (v :: 16 word)"
  by (rule bit_word_eqI) (auto simp add: bit_simps)

lemma bytes_of_uint32:
  "ucast (ucast v :: byte) OR push_bit 8 (ucast (ucast (drop_bit 8 v) :: byte))
     OR push_bit 16 (ucast (ucast (drop_bit 16 v) :: byte))
     OR push_bit 24 (ucast (ucast (drop_bit 24 v) :: byte)) = (v :: 32 word)"
  (is "?l = v")
proof (rule bit_word_eqI)
  fix n :: nat
  assume "n < LENGTH(32)"
  then consider "n < 8" | "8 \<le> n" "n < 16" | "16 \<le> n" "n < 24" | "24 \<le> n" "n < 32"
    by fastforce
  then show "bit ?l n = bit v n"
    by cases (auto simp add: bit_simps)
qed

lemma gpmConnect_LittleEndian:
  "gpmConnect LittleEndian conf pid tty = Some
     [ucast (EventMask conf), ucast (drop_bit 8 (EventMask conf)),
      ucast (DefaultMask conf), ucast (drop_bit 8 (DefaultMask conf)),
      ucast (MinMod conf), ucast (drop_bit 8 (MinMod conf)),
      ucast (MaxMod conf), ucast (drop_bit 8 (MaxMod conf)),
      ucast (word_of_int pid :: 32 word), ucast (drop_bit 8 (word_of_int pid :: 32 word)),
      ucast (drop_bit 16 (word_of_int pid :: 32 word)),
      ucast (drop_bit 24 (word_of_int pid :: 32 word)),
      ucast (word_of_int tty :: 32 word), ucast (drop_bit 8 (word_of_int tty :: 32 word)),
      ucast (drop_bit 16 (word_of_int tty :: 32 word)),
      ucast (drop_bit 24 (word_of_int tty :: 32 word))]"
  by (simp add: gpmConnect_def PutUint16_def PutUint32_def replicate_16)

lemma gpmConnect_BigEndian:
  "gpmConnect BigEndian conf pid tty = Some
     [ucast (drop_bit 8 (EventMask conf)), ucast (EventMask conf),
      ucast (drop_bit 8 (DefaultMask conf)), ucast (DefaultMask conf),
      ucast (drop_bit 8 (MinMod conf)), ucast (MinMod conf),
      ucast (drop_bit 8 (MaxMod conf)), ucast (MaxMod conf),
      ucast (drop_bit 24 (word_of_int pid :: 32 word)),
      ucast (drop_bit 16 (word_of_int pid :: 32 word)),
      ucast (drop_bit 8 (word_of_int pid :: 32 word)), ucast (word_of_int pid :: 32 word),
      ucast (drop_bit 24 (word_of_int tty :: 32 word)),
      ucast (drop_bit 16 (word_of_int tty :: 32 word)),
      ucast (drop_bit 8 (word_of_int tty :: 32 word)), ucast (word_of_int tty :: 32 word)]"
  by (simp add: gpmConnect_def PutUint16_def PutUint32_def replicate_16)

lemma read_handshake_gpmConnect:
  "gpmConnect bo conf pid tty \<bind> read_handshake bo =
     Some (EventMask conf, DefaultMask conf, MinMod conf, MaxMod conf,
           word_of_int pid, word_of_int tty)"
  by (cases bo)
    (simp_all add: gpmConnect_LittleEndian gpmConnect_BigEndian read_handshake_def
      slice_from_def bytes_of_uint16 bytes_of_uint32)

lemma Uint16_Some: "2 \<le> length s \<Longrightarrow> \<exists>v. Uint16 bo s = Some v"
  by (cases "(bo, s)" rule: Uint16.cases) auto

lemma Uint32_Some: "4 \<le> length s \<Longrightarrow> \<exists>v. Uint32 bo s = Some v"
  by (cases "(bo, s)" rule: Uint32.cases) auto

lemma bind_Uint16:
  assumes "i + 2 \<le> length b"
  shows "slice_from b i \<bind> (\<lambda>s. Uint16 bo s \<bind> f) = f (the (Uint16 bo (drop i b)))"
proof -
  from assms have "2 \<le> length (drop i b)" by simp
  then obtain v where "Uint16 bo (drop i b) = Some v"
    using Uint16_Some by blast
  with assms show ?thesis by (simp add: slice_from_def)
qed

lemma bind_Uint32:
  assumes "i + 4 \<le> length b"
  shows "slice_from b i \<bind> (\<lambda>s. Uint32 bo s \<bind> f) = f (the (Uint32 bo (drop i b)))"
proof -
  from assms have "4 \<le> length (drop i b)" by simp
  then obtain v where "Uint32 bo (drop i b) = Some v"
    using Uint32_Some by blast
  with assms show ?thesis by (simp add: slice_from_def)
qed

lemma decode_Event_Some: "length b = 28 \<Longrightarrow> \<exists>e. decode_Event bo b = Some e"
  by (simp add: decode_Event_def bind_Uint16 bind_Uint32)

lemma conn_Read_full: "length d = 28 \<Longrightarrow> conn_Read (replicate 28 0) d = d"
  by (simp add: conn_Read_def)

text \<open>Setting bits one after the other gives a value that depends on the set of bits only.\<close>

lemma bit_fold_OR:
  fixes a :: "'a::len word"
  shows "bit (fold (OR) fs a) n = (bit a n \<or> (\<exists>f \<in> set fs. bit f n))"
  by (induction fs arbitrary: a) (auto simp add: bit_or_iff)

lemma fold_OR_set:
  fixes fs gs :: "'a::len word list"
  assumes "set fs = set gs"
  shows "fold (OR) fs 0 = fold (OR) gs 0"
  by (rule bit_word_eqI) (simp add: bit_fold_OR assms)

lemma EventType_String_MOVE_DOWN_SINGLE:
  "EventType_String (fold (OR) [MOVE, DOWN, SINGLE] 0) = ''move,down,single''"
  by code_simp

text \<open>
  Without an error from the connection, \<^verbatim>\<open>GPM.Read\<close> returns an event and no error,
  however many bytes were delivered: the buffer it decodes always has 28 bytes.
\<close>

lemma conn_Read_length: "length (conn_Read (replicate 28 0) d) = 28"
  by (simp add: conn_Read_def)

lemma GPM_Read_no_error: "\<exists>e. GPM_Read bo (d, None) = Some (e, None)"
proof -
  obtain e where "decode_Event bo (conn_Read (replicate 28 0) d) = Some e"
    using decode_Event_Some [OF conn_Read_length] by blast
  then show ?thesis by (simp add: GPM_Read_def)
qed

text \<open>
  The buttons are the low byte of the 16-bit value at offset 0: the byte at offset 0 in
  little-endian order, the byte at offset 1 in big-endian order.
\<close>

lemma low_byte_of_uint16:
  "ucast (ucast b0 OR push_bit 8 (ucast b1) :: 16 word) = (b0 :: byte)"
  by (rule bit_word_eqI) (auto simp add: bit_simps)

lemma decode_Event_Buttons:
  assumes "length b = 28"
  shows "map_option Buttons (decode_Event bo b)
           = Some (case bo of LittleEndian \<Rightarrow> b ! 0 | BigEndian \<Rightarrow> b ! 1)"
proof -
  from assms obtain b0 b1 bs where b: "b = b0 # b1 # bs"
    by (cases b; cases "tl b") auto
  from assms have "map_option Buttons (decode_Event bo b)
                     = Some (ucast (the (Uint16 bo (drop 0 b))))"
    by (simp add: decode_Event_def bind_Uint16 bind_Uint32)
  then show ?thesis
    by (cases bo) (simp_all add: b low_byte_of_uint16)
qed

section \<open>Handshake encoding\<close>

text \<open>
  C4: for every configuration (four 16-bit values), every 32-bit process id and every
  32-bit terminal id, given to the encoder as the signed or as the unsigned integer they
  stand for, and in either byte order, reading the six fields of the 16-byte record back
  at offsets 0, 2, 4, 6, 8 and 12 in the same byte order gives the values that were
  encoded.
\<close>

theorem handshake_roundtrip:
  fixes p t :: "32 word"
  shows "gpmConnect bo conf (sint p) (sint t) \<bind> read_handshake bo =
           Some (EventMask conf, DefaultMask conf, MinMod conf, MaxMod conf, p, t)
         \<and> gpmConnect bo conf (uint p) (uint t) \<bind> read_handshake bo =
           Some (EventMask conf, DefaultMask conf, MinMod conf, MaxMod conf, p, t)"
  by (simp add: read_handshake_gpmConnect)

text \<open>
  C7: with the default configuration (both masks 0xFFFF, minMod 0, maxMod 0xFFFF),
  process id 1234 and terminal 4, the little-endian handshake record is the 16 bytes
  FF FF FF FF 00 00 FF FF D2 04 00 00 04 00 00 00.
\<close>

theorem gpmConnect_default_little_endian:
  "gpmConnect LittleEndian DefaultConf 1234 4 =
     Some [0xFF, 0xFF, 0xFF, 0xFF, 0x00, 0x00, 0xFF, 0xFF,
           0xD2, 0x04, 0x00, 0x00, 0x04, 0x00, 0x00, 0x00]"
  by code_simp

section \<open>Flag rendering\<close>

text \<open>
  C2, at the value 0: the test \<^verbatim>\<open>b&B_NONE > 0\<close> masks with 0 and never holds, so the label
  "none" is never appended; the value 0 renders as the empty string. The value 5 renders
  as "right,left".
\<close>

theorem Buttons_String_0_and_5:
  "Buttons_String 0 = '''' \<and> Buttons_String 5 = ''right,left''"
  by code_simp

text \<open>
  C8: whatever the order (and however often) the bits MOVE, DOWN and SINGLE are set,
  starting from 0, the resulting EventType renders as "move,down,single"; two values
  built from the same three bits in different orders render the same. Rendering is a
  function of the value alone, so rendering a value again gives the same string.
\<close>

theorem EventType_String_order_stable:
  assumes "set fs = {MOVE, DOWN, SINGLE}" and "set gs = {MOVE, DOWN, SINGLE}"
  shows "EventType_String (fold (OR) fs 0) = ''move,down,single''
         \<and> EventType_String (fold (OR) gs 0) = EventType_String (fold (OR) fs 0)"
proof -
  have "fold (OR) fs 0 = fold (OR) [MOVE, DOWN, SINGLE] 0"
    by (rule fold_OR_set) (simp add: assms)
  moreover have "fold (OR) gs 0 = fold (OR) [MOVE, DOWN, SINGLE] 0"
    by (rule fold_OR_set) (simp add: assms)
  ultimately show ?thesis
    by (simp only: EventType_String_MOVE_DOWN_SINGLE)
qed

theorem EventType_String_order_stable_witness:
  "EventType_String (fold (OR) [SINGLE, MOVE, DOWN, MOVE] 0) = ''move,down,single''
   \<and> EventType_String (fold (OR) [DOWN, SINGLE, MOVE] 0)
       = EventType_String (fold (OR) [SINGLE, MOVE, DOWN, MOVE] 0)"
proof -
  have f: "set [SINGLE, MOVE, DOWN, MOVE] = {MOVE, DOWN, SINGLE}" by auto
  have g: "set [DOWN, SINGLE, MOVE] = {MOVE, DOWN, SINGLE}" by auto
  show ?thesis by (rule EventType_String_order_stable [OF f g])
qed

text \<open>
  C10: the rendering of a Buttons value looks at the bits 1, 2, 4, 8, 16 and 32 only:
  every 8-bit value \<open>b\<close> renders as \<open>b AND 63\<close> does.
\<close>

theorem Buttons_String_low_six_bits:
  "Buttons_String b = Buttons_String (b AND 63)"
  by (simp add: Buttons_String_def flag_def B_NONE_def B_RIGHT_def B_MIDDLE_def B_LEFT_def
      B_FOURTH_def B_UP_def B_DOWN_def and.assoc)

section \<open>Decoding events\<close>

text \<open>
  C5: on a buffer of 28 bytes, in either byte order, the decoding returns an event (no
  slice or accessor panics); a second buffer with the same 28 bytes decodes to the same
  event; and \<^verbatim>\<open>GPM.Read\<close>, when the connection delivers these 28 bytes with no error,
  returns that event with no error.
\<close>

theorem decode_Event_total_deterministic:
  assumes "length b = 28" and "length b' = 28" and "b' = b"
  shows "\<exists>e. decode_Event bo b = Some e \<and> decode_Event bo b' = Some e
           \<and> GPM_Read bo (b, None) = Some (e, None)"
proof -
  from assms(1) obtain e where e: "decode_Event bo b = Some e"
    using decode_Event_Some by blast
  with assms show ?thesis
    by (simp add: GPM_Read_def conn_Read_full)
qed

theorem decode_Event_total_deterministic_witness:
  "length (replicate 28 (0xA5 :: byte)) = 28
   \<and> (\<exists>e. decode_Event BigEndian (replicate 28 0xA5) = Some e
          \<and> GPM_Read BigEndian (replicate 28 0xA5, None) = Some (e, None))"
  using decode_Event_total_deterministic [of "replicate 28 0xA5" "replicate 28 0xA5" BigEndian]
  by simp

text \<open>
  C9: when \<^verbatim>\<open>GPM.Read\<close> returns an error, the event it returns with it is the zero value
  \<^verbatim>\<open>Event{}\<close>, whatever bytes the connection delivered before failing.
\<close>

theorem GPM_Read_error_zero:
  assumes "GPM_Read bo outcome = Some (ev, Some e)"
  shows "ev = Event_zero"
  using assms by (auto simp add: GPM_Read_def Let_def split: option.splits)

theorem GPM_Read_error_zero_witness:
  "fst (the (GPM_Read LittleEndian ([1, 0, 4, 0], Some EOF))) = Event_zero"
proof -
  have "GPM_Read LittleEndian ([1, 0, 4, 0], Some EOF)
          = Some (fst (the (GPM_Read LittleEndian ([1, 0, 4, 0], Some EOF))), Some EOF)"
    by (simp add: GPM_Read_def)
  then show ?thesis by (rule GPM_Read_error_zero)
qed

text \<open>
  C1, at a short read: \<^verbatim>\<open>GPM.Read\<close> drops the byte count of \<^verbatim>\<open>c.Read\<close>. When the
  connection delivers the four bytes 01 00 04 00 and no error, it returns, with no error,
  the event decoded from these four bytes followed by the 24 zero bytes the fresh buffer
  still holds: buttons 1, vc 4, every other field 0.
\<close>

theorem GPM_Read_short_read:
  "GPM_Read LittleEndian ([1, 0, 4, 0], None)
     = Some (Event_zero\<lparr>Buttons := 1, VC := 4\<rparr>, None)"
  by code_simp

text \<open>
  C3, on the code: the 28 bytes with type MOVE, x = 190, y = 28, dy = 1 and every other
  field 0, laid out in either byte order and read in that order, decode to an event that
  prints with an empty list of buttons, \<^verbatim>\<open>buttons:\<close> and not \<^verbatim>\<open>buttons:none\<close>.
\<close>

theorem Event_String_move_scenario:
  "map_option (\<lambda>r. (Event_String (fst r), snd r))
     (GPM_Read LittleEndian
        ([0, 0, 0, 0, 0, 0, 1, 0, 0xBE, 0, 0x1C, 0, 1, 0, 0, 0,
          0, 0, 0, 0, 0, 0, 0, 0, 0, 0, 0, 0], None))
   = Some (''type:move[buttons:, modifiers:0, vc:0] x:190[dx:0] y:28[dy:1], clicks:0 margin:, wdx:0, wdy:0'', None)
   \<and> map_option (\<lambda>r. (Event_String (fst r), snd r))
     (GPM_Read BigEndian
        ([0, 0, 0, 0, 0, 0, 0, 1, 0, 0xBE, 0, 0x1C, 0, 0, 0, 1,
          0, 0, 0, 0, 0, 0, 0, 0, 0, 0, 0, 0], None))
   = Some (''type:move[buttons:, modifiers:0, vc:0] x:190[dx:0] y:28[dy:1], clicks:0 margin:, wdx:0, wdy:0'', None)"
  by code_simp

text \<open>
  C6, on a host that stores the most significant byte first (the probe leaves AB CD):
  the buttons are the low byte of the 16-bit value read at offset 0, which there is the
  byte at offset 1. The buffer 01 02 00 ... 00 decodes to buttons 2 (and modifiers 0),
  not to buttons 1.
\<close>

theorem decode_Event_Buttons_BigEndian:
  "map_option (\<lambda>e. (Buttons e, Modifiers e))
     (decode_Event (init [0xAB, 0xCD])
        [1, 2, 0, 0, 0, 0, 0, 0, 0, 0, 0, 0, 0, 0, 0, 0,
         0, 0, 0, 0, 0, 0, 0, 0, 0, 0, 0, 0])
   = Some (2, 0)"
  by code_simp

end
